theory Spec2Isabelle
  imports Complex_Main "HOL-Library.Multiset"
begin

section \<open>The employee REST server (src/server.js)\<close>

text \<open>
  The server keeps one SQLite table \<open>employees\<close> and answers six routes. Each route
  handler is modelled as a function from the request and the table to the response and the
  table afterwards. What the handlers take from the JavaScript runtime and from the SQLite
  driver, and do not define themselves, is collected in a record \<open>host\<close> that every
  theorem quantifies over.
\<close>

subsection \<open>JavaScript values of a parsed JSON body\<close>

text \<open>A JavaScript string is a sequence of UTF-16 code units.\<close>

type_synonym jsstring = "nat list"

definition str :: "string \<Rightarrow> jsstring" where
  "str s = map of_char s"

text \<open>
  The fields the handlers destructure from \<open>req.body\<close>: any value JSON.parse
  produces, or \<open>undefined\<close> when the key is absent. A number is a double: \<open>JNum r\<close>
  is the finite double whose value is the rational \<open>r\<close> (so a literal such as
  \<open>1e-400\<close> is \<open>JNum 0\<close>, and both zeros are \<open>JNum 0\<close>: nothing below tells them
  apart), and \<open>JInfinity neg\<close> is the infinity a literal beyond the double range parses
  to, negative when \<open>neg\<close>.
\<close>

datatype jsval =
    JUndefined
  | JNull
  | JBool bool
  | JNum rat
  | JInfinity bool
  | JStr jsstring
  | JArr "jsval list"
  | JObj "(jsstring \<times> jsval) list"

text \<open>
  Built-ins used by the handlers whose results are fixed outside server.js:
  \<open>date_parse s\<close> says whether \<open>Date.parse(s)\<close> is a time value (not NaN);
  \<open>number_to_string\<close> is Number::toString on a finite double; \<open>sql_text\<close> is the text the driver
  stores in a TEXT column for a bound parameter (binding is taken to give a text for
  every value); \<open>sql_numeric\<close> is the integer a text
  parameter is coerced to when compared with the INTEGER column \<open>id\<close> (None when it
  does not denote an integer); \<open>parseInt\<close> is the global function (None is NaN).
\<close>

record host =
  date_parse :: "jsstring \<Rightarrow> bool"
  number_to_string :: "rat \<Rightarrow> jsstring"
  sql_text :: "jsval \<Rightarrow> jsstring"
  sql_numeric :: "jsstring \<Rightarrow> int option"
  parseInt :: "jsstring \<Rightarrow> int option"

datatype jserror = TypeError

text \<open>The operand of \<open>!\<close>: ToBoolean.\<close>

fun truthy :: "jsval \<Rightarrow> bool" where
  "truthy JUndefined = False"
| "truthy JNull = False"
| "truthy (JBool b) = b"
| "truthy (JNum r) = (r \<noteq> 0)"
| "truthy (JInfinity neg) = True"
| "truthy (JStr s) = (s \<noteq> [])"
| "truthy (JArr xs) = True"
| "truthy (JObj kvs) = True"

text \<open>Array.prototype.join with the default separator, a comma (code unit 44).\<close>

fun join :: "jsstring list \<Rightarrow> jsstring" where
  "join [] = []"
| "join [s] = s"
| "join (s # t # ss) = s @ 44 # join (t # ss)"

text \<open>
  ToString, as \<open>RegExp.prototype.test\<close> applies it to its argument. An array is joined,
  its \<open>null\<close> and \<open>undefined\<close> elements printing as the empty string. A plain object
  prints as \<open>[object Object]\<close> through the inherited method, unless the JSON gave it an
  own key \<open>toString\<close>: that value is never callable, the inherited \<open>valueOf\<close> returns
  the object itself, and the conversion throws a TypeError (None).
\<close>

fun ToString :: "host \<Rightarrow> jsval \<Rightarrow> jsstring option" where
  "ToString h JUndefined = Some (str ''undefined'')"
| "ToString h JNull = Some (str ''null'')"
| "ToString h (JBool b) = Some (str (if b then ''true'' else ''false''))"
| "ToString h (JNum r) = Some (number_to_string h r)"
| "ToString h (JInfinity neg) = Some (str (if neg then ''-Infinity'' else ''Infinity''))"
| "ToString h (JStr s) = Some s"
| "ToString h (JArr xs) =
     map_option join
       (those (map (\<lambda>x. if x = JUndefined \<or> x = JNull then Some [] else ToString h x) xs))"
| "ToString h (JObj kvs) =
     (if str ''toString'' \<in> fst ` set kvs then None else Some (str ''[object Object]''))"

text \<open>
  \<open>isNaN(new Date(v).getTime())\<close>. The constructor parses a string; an object is first
  converted to a primitive, which for the values JSON can produce is the string ToString
  gives (or the same TypeError); any other value is converted to a number, a valid time
  value when its magnitude is at most 8.64e15. None stands for the thrown TypeError.
\<close>

fun Date_isNaN :: "host \<Rightarrow> jsval \<Rightarrow> bool option" where
  "Date_isNaN h JUndefined = Some True"
| "Date_isNaN h JNull = Some False"
| "Date_isNaN h (JBool b) = Some False"
| "Date_isNaN h (JNum r) = Some (\<not> \<bar>r\<bar> \<le> 8640000000000000)"
| "Date_isNaN h (JInfinity neg) = Some True"
| "Date_isNaN h (JStr s) = Some (\<not> date_parse h s)"
| "Date_isNaN h (JArr xs) = map_option (\<lambda>s. \<not> date_parse h s) (ToString h (JArr xs))"
| "Date_isNaN h (JObj kvs) = map_option (\<lambda>s. \<not> date_parse h s) (ToString h (JObj kvs))"

subsection \<open>The email pattern\<close>

text \<open>
  The class \<open>\s\<close> of a pattern without the unicode flag: WhiteSpace and LineTerminator
  of ECMAScript, as UTF-16 code units.
\<close>

definition js_space :: "nat \<Rightarrow> bool" where
  "js_space c \<longleftrightarrow>
     c \<in> {9, 10, 11, 12, 13, 32, 160, 5760, 8232, 8233, 8239, 8287, 12288, 65279}
     \<or> (8192 \<le> c \<and> c \<le> 8202)"

text \<open>The class \<open>[^\s@]\<close>; 64 is the at sign.\<close>

definition plain_char :: "nat \<Rightarrow> bool" where
  "plain_char c \<longleftrightarrow> \<not> js_space c \<and> c \<noteq> 64"

text \<open>
  \<open>/^[^\s@]+@[^\s@]+\.[^\s@]+$/.test(s)\<close>, computed: the part before the first at sign
  is non-empty and plain, the part after it is plain and has a full stop (46) that is
  neither its first nor its last character.
\<close>

definition emailRegex_test :: "jsstring \<Rightarrow> bool" where
  "emailRegex_test s =
     (let a = takeWhile (\<lambda>c. c \<noteq> 64) s; r = dropWhile (\<lambda>c. c \<noteq> 64) s
      in a \<noteq> [] \<and> list_all plain_char a \<and>
         (case r of [] \<Rightarrow> False
          | _ # d \<Rightarrow> list_all plain_char d \<and> 46 \<in> set (butlast (tl d))))"

text \<open>The language of the pattern, read off its syntax.\<close>

definition emailRegex_matches :: "jsstring \<Rightarrow> bool" where
  "emailRegex_matches s \<longleftrightarrow>
     (\<exists>a b c. s = a @ 64 # b @ 46 # c \<and> a \<noteq> [] \<and> b \<noteq> [] \<and> c \<noteq> [] \<and>
        list_all plain_char a \<and> list_all plain_char b \<and> list_all plain_char c)"

subsection \<open>validateEmployee\<close>

record employee_body =
  name :: jsval
  email :: jsval
  department :: jsval
  role :: jsval
  hireDate :: jsval

text \<open>The object validateEmployee returns: \<open>{valid: true}\<close> or \<open>{valid: false, message}\<close>.\<close>

datatype validation = Valid | Invalid string

definition validateEmployee :: "host \<Rightarrow> employee_body \<Rightarrow> jserror + validation" where
  "validateEmployee h employee =
     (if \<not> truthy (name employee) \<or> \<not> truthy (email employee) \<or> \<not> truthy (department employee)
         \<or> \<not> truthy (role employee) \<or> \<not> truthy (hireDate employee)
      then Inr (Invalid ''All fields are required'')
      else (case ToString h (email employee) of
        None \<Rightarrow> Inl TypeError
      | Some s \<Rightarrow>
          if \<not> emailRegex_test s then Inr (Invalid ''Invalid email format'')
          else (case Date_isNaN h (hireDate employee) of
            None \<Rightarrow> Inl TypeError
          | Some nan \<Rightarrow>
              if nan then Inr (Invalid ''Invalid hire date format'') else Inr Valid)))"

subsection \<open>The table and the statements run on it\<close>

record employee_row =
  row_id :: int
  row_name :: jsstring
  row_email :: jsstring
  row_department :: jsstring
  row_role :: jsstring
  row_hireDate :: jsstring

text \<open>
  The table's rows, and the counter SQLite keeps for an AUTOINCREMENT key (the largest
  rowid ever given out).
\<close>

record database =
  employees :: "employee_row list"
  sqlite_sequence :: int

text \<open>\<open>CREATE TABLE IF NOT EXISTS\<close>: a new file gets the empty table, an old one is kept.\<close>

definition initDatabase :: "database option \<Rightarrow> database" where
  "initDatabase file =
     (case file of None \<Rightarrow> \<lparr>employees = [], sqlite_sequence = 0\<rparr> | Some db \<Rightarrow> db)"

text \<open>\<open>String.prototype.includes\<close>.\<close>

fun starts_with :: "'a list \<Rightarrow> 'a list \<Rightarrow> bool" where
  "starts_with xs [] = True"
| "starts_with [] (y # ys) = False"
| "starts_with (x # xs) (y # ys) = (x = y \<and> starts_with xs ys)"

fun js_includes :: "'a list \<Rightarrow> 'a list \<Rightarrow> bool" where
  "js_includes [] t = (t = [])"
| "js_includes (x # xs) t = (starts_with (x # xs) t \<or> js_includes xs t)"

definition unique_failed :: string where
  "unique_failed = ''SQLITE_CONSTRAINT: UNIQUE constraint failed: employees.email''"

definition sqlite_full :: string where
  "sqlite_full = ''SQLITE_FULL: database or disk is full''"

text \<open>
  The driver hands an INTEGER column, and \<open>this.lastID\<close>, to JavaScript as a number:
  the 64-bit integer converted to a double, rounded to the nearest one with 53 significant
  bits, ties to the even neighbour. \<open>bit_length\<close> counts the binary digits of a
  positive integer.
\<close>

function bit_length :: "int \<Rightarrow> nat" where
  "bit_length n = (if n \<le> 0 then 0 else Suc (bit_length (n div 2)))"
  by pat_completeness auto
termination
  by (relation "measure nat") auto

declare bit_length.simps [simp del]

definition double_of_int :: "int \<Rightarrow> int" where
  "double_of_int i =
     (let m = \<bar>i\<bar>; e = bit_length m - 53 in
      if e = 0 then i
      else
        let q = m div 2 ^ e; r = m mod 2 ^ e; half = 2 ^ (e - 1);
            q' = (if half < r \<or> (r = half \<and> odd q) then q + 1 else q)
        in sgn i * (q' * 2 ^ e))"

text \<open>A row as the callback of \<open>db.all\<close> and \<open>db.get\<close> receives it.\<close>

definition js_row :: "employee_row \<Rightarrow> employee_row" where
  "js_row r = r\<lparr>row_id := double_of_int (row_id r)\<rparr>"

text \<open>\<open>WHERE id = ?\<close> with the route parameter bound as text.\<close>

definition id_is :: "host \<Rightarrow> jsstring \<Rightarrow> employee_row \<Rightarrow> bool" where
  "id_is h ident r \<longleftrightarrow> sql_numeric h ident = Some (row_id r)"

text \<open>\<open>ORDER BY id DESC\<close>.\<close>

definition order_by_id_desc :: "employee_row list \<Rightarrow> employee_row list" where
  "order_by_id_desc rows = rev (sort_key row_id rows)"

text \<open>
  Every statement takes \<open>fault\<close>: the message of an error the driver reports for a reason
  outside the table's contents (the file cannot be read, the disk is full), in which case
  the statement has no effect. The callback's \<open>err\<close> is the left summand.
\<close>

definition select_all :: "string option \<Rightarrow> database \<Rightarrow> string + employee_row list" where
  "select_all fault db =
     (case fault of Some m \<Rightarrow> Inl m
      | None \<Rightarrow> Inr (map js_row (order_by_id_desc (employees db))))"

definition select_by_id ::
  "host \<Rightarrow> string option \<Rightarrow> database \<Rightarrow> jsstring \<Rightarrow> string + employee_row option" where
  "select_by_id h fault db ident =
     (case fault of Some m \<Rightarrow> Inl m
      | None \<Rightarrow> Inr (map_option js_row (find (id_is h ident) (employees db))))"

definition select_by_department ::
  "string option \<Rightarrow> database \<Rightarrow> jsstring \<Rightarrow> string + employee_row list" where
  "select_by_department fault db dept =
     (case fault of Some m \<Rightarrow> Inl m
      | None \<Rightarrow>
          Inr (map js_row
                 (order_by_id_desc (filter (\<lambda>r. row_department r = dept) (employees db)))))"

text \<open>
  INSERT. The new rowid is one more than the largest of the counter and the rowids in the
  table; SQLite refuses the insert when that is the largest 64-bit integer, before it
  looks at the row. Then the email column is UNIQUE. The result is the new rowid, which
  the callback reads as \<open>this.lastID\<close>.
\<close>

definition insert_employee ::
  "host \<Rightarrow> string option \<Rightarrow> database \<Rightarrow> employee_body \<Rightarrow> (string + int) \<times> database" where
  "insert_employee h fault db b =
     (case fault of Some m \<Rightarrow> (Inl m, db)
      | None \<Rightarrow>
          let top = fold max (map row_id (employees db)) (sqlite_sequence db) in
          if top \<ge> 9223372036854775807 then (Inl sqlite_full, db)
          else if list_ex (\<lambda>r. row_email r = sql_text h (email b)) (employees db)
          then (Inl unique_failed, db)
          else (Inr (top + 1),
                  \<lparr>employees = employees db @
                     [\<lparr>row_id = top + 1, row_name = sql_text h (name b),
                       row_email = sql_text h (email b),
                       row_department = sql_text h (department b),
                       row_role = sql_text h (role b),
                       row_hireDate = sql_text h (hireDate b)\<rparr>],
                   sqlite_sequence = top + 1\<rparr>))"

text \<open>
  UPDATE ... WHERE id = ?. No row matched is no error and no change; a matched row whose
  new email is another row's fails the UNIQUE constraint. The result is \<open>this.changes\<close>.
\<close>

definition update_employee ::
  "host \<Rightarrow> string option \<Rightarrow> database \<Rightarrow> employee_body \<Rightarrow> jsstring \<Rightarrow> (string + nat) \<times> database" where
  "update_employee h fault db b ident =
     (case fault of Some m \<Rightarrow> (Inl m, db)
      | None \<Rightarrow>
          if list_ex (id_is h ident) (employees db) \<and>
             list_ex (\<lambda>r. \<not> id_is h ident r \<and> row_email r = sql_text h (email b)) (employees db)
          then (Inl unique_failed, db)
          else (Inr (length (filter (id_is h ident) (employees db))),
                db\<lparr>employees :=
                  map (\<lambda>r. if id_is h ident r
                            then r\<lparr>row_name := sql_text h (name b),
                                   row_email := sql_text h (email b),
                                   row_department := sql_text h (department b),
                                   row_role := sql_text h (role b),
                                   row_hireDate := sql_text h (hireDate b)\<rparr>
                            else r)
                      (employees db)\<rparr>))"

text \<open>DELETE ... WHERE id = ?. The result is \<open>this.changes\<close>.\<close>

definition delete_employee_row ::
  "host \<Rightarrow> string option \<Rightarrow> database \<Rightarrow> jsstring \<Rightarrow> (string + nat) \<times> database" where
  "delete_employee_row h fault db ident =
     (case fault of Some m \<Rightarrow> (Inl m, db)
      | None \<Rightarrow> (Inr (length (filter (id_is h ident) (employees db))),
                 db\<lparr>employees := filter (\<lambda>r. \<not> id_is h ident r) (employees db)\<rparr>))"

subsection \<open>The route handlers\<close>

text \<open>
  What \<open>res.json\<close> is given. \<open>EmployeeJson\<close> is the object POST and PUT answer with: an
  id (a number, or NaN as None) and the five fields of the request as they came. \<open>ErrorPage\<close> is what Express's own
  error handler sends when a handler throws.
\<close>

datatype json_body =
    ErrorJson string
  | MessageJson string
  | RowsJson "employee_row list"
  | RowJson employee_row
  | EmployeeJson "int option" employee_body
  | ErrorPage

record response =
  status :: nat
  body :: json_body

definition get_employees :: "string option \<Rightarrow> database \<Rightarrow> response \<times> database" where
  "get_employees fault db =
     (case select_all fault db of
        Inl m \<Rightarrow> (\<lparr>status = 500, body = ErrorJson ''Error fetching employees''\<rparr>, db)
      | Inr rows \<Rightarrow> (\<lparr>status = 200, body = RowsJson rows\<rparr>, db))"

definition get_employee :: "host \<Rightarrow> string option \<Rightarrow> database \<Rightarrow> jsstring \<Rightarrow> response \<times> database" where
  "get_employee h fault db ident =
     (case select_by_id h fault db ident of
        Inl m \<Rightarrow> (\<lparr>status = 500, body = ErrorJson ''Error fetching employee''\<rparr>, db)
      | Inr None \<Rightarrow> (\<lparr>status = 404, body = ErrorJson ''Employee not found''\<rparr>, db)
      | Inr (Some row) \<Rightarrow> (\<lparr>status = 200, body = RowJson row\<rparr>, db))"

definition get_employees_by_department ::
  "string option \<Rightarrow> database \<Rightarrow> jsstring \<Rightarrow> response \<times> database" where
  "get_employees_by_department fault db dept =
     (case select_by_department fault db dept of
        Inl m \<Rightarrow> (\<lparr>status = 500, body = ErrorJson ''Error fetching employees''\<rparr>, db)
      | Inr rows \<Rightarrow> (\<lparr>status = 200, body = RowsJson rows\<rparr>, db))"

definition post_employee ::
  "host \<Rightarrow> string option \<Rightarrow> database \<Rightarrow> employee_body \<Rightarrow> response \<times> database" where
  "post_employee h fault db b =
     (case validateEmployee h b of
        Inl e \<Rightarrow> (\<lparr>status = 500, body = ErrorPage\<rparr>, db)
      | Inr (Invalid msg) \<Rightarrow> (\<lparr>status = 400, body = ErrorJson msg\<rparr>, db)
      | Inr Valid \<Rightarrow>
          (case insert_employee h fault db b of
             (Inl m, db') \<Rightarrow>
               if js_includes m ''UNIQUE constraint failed''
               then (\<lparr>status = 400, body = ErrorJson ''Email already exists''\<rparr>, db')
               else (\<lparr>status = 500, body = ErrorJson ''Error creating employee''\<rparr>, db')
           | (Inr lastID, db') \<Rightarrow>
               (\<lparr>status = 201, body = EmployeeJson (Some (double_of_int lastID)) b\<rparr>, db')))"

definition put_employee ::
  "host \<Rightarrow> string option \<Rightarrow> database \<Rightarrow> jsstring \<Rightarrow> employee_body \<Rightarrow> response \<times> database" where
  "put_employee h fault db ident b =
     (case validateEmployee h b of
        Inl e \<Rightarrow> (\<lparr>status = 500, body = ErrorPage\<rparr>, db)
      | Inr (Invalid msg) \<Rightarrow> (\<lparr>status = 400, body = ErrorJson msg\<rparr>, db)
      | Inr Valid \<Rightarrow>
          (case update_employee h fault db b ident of
             (Inl m, db') \<Rightarrow>
               if js_includes m ''UNIQUE constraint failed''
               then (\<lparr>status = 400, body = ErrorJson ''Email already exists''\<rparr>, db')
               else (\<lparr>status = 500, body = ErrorJson ''Error updating employee''\<rparr>, db')
           | (Inr changes, db') \<Rightarrow>
               if changes = 0
               then (\<lparr>status = 404, body = ErrorJson ''Employee not found''\<rparr>, db')
               else (\<lparr>status = 200, body = EmployeeJson (parseInt h ident) b\<rparr>, db')))"

definition delete_employee ::
  "host \<Rightarrow> string option \<Rightarrow> database \<Rightarrow> jsstring \<Rightarrow> response \<times> database" where
  "delete_employee h fault db ident =
     (case delete_employee_row h fault db ident of
        (Inl m, db') \<Rightarrow> (\<lparr>status = 500, body = ErrorJson ''Error deleting employee''\<rparr>, db')
      | (Inr changes, db') \<Rightarrow>
          if changes = 0
          then (\<lparr>status = 404, body = ErrorJson ''Employee not found''\<rparr>, db')
          else (\<lparr>status = 200, body = MessageJson ''Employee deleted successfully''\<rparr>, db'))"

subsection \<open>Key constraints of the table\<close>

text \<open>
  \<open>id INTEGER PRIMARY KEY\<close> and \<open>email TEXT UNIQUE\<close>: what SQLite guarantees of every
  table it stores.
\<close>

definition primary_key_ok :: "database \<Rightarrow> bool" where
  "primary_key_ok db \<longleftrightarrow> distinct (map row_id (employees db))"

definition emails_unique :: "database \<Rightarrow> bool" where
  "emails_unique db \<longleftrightarrow> distinct (map row_email (employees db))"


text \<open>
  The tables the server can have after starting on a new file: each request that writes
  goes through one of the three writing routes.
\<close>

inductive reachable :: "host \<Rightarrow> database \<Rightarrow> bool" for h :: host where
  fresh: "reachable h (initDatabase None)"
| post: "reachable h db \<Longrightarrow> reachable h (snd (post_employee h fault db b))"
| put: "reachable h db \<Longrightarrow> reachable h (snd (put_employee h fault db ident b))"
| delete: "reachable h db \<Longrightarrow> reachable h (snd (delete_employee h fault db ident))"

subsection \<open>Concrete requests and tables\<close>

text \<open>
  A host for the examples below. It fixes the built-ins only on the inputs the examples
  use: the date \<open>2024-01-15\<close> parses and the text \<open>not a date\<close> does not; a route
  parameter of one to fifteen decimal digits denotes that integer, to SQLite and to
  parseInt; a string is stored as it is. Everywhere else it is left unspecified.
\<close>

definition decimal :: "jsstring \<Rightarrow> int option" where
  "decimal s =
     (if s \<noteq> [] \<and> length s \<le> 15 \<and> list_all (\<lambda>c. 48 \<le> c \<and> c \<le> 57) s
      then Some (int (foldl (\<lambda>a c. 10 * a + (c - 48)) 0 s)) else undefined)"

definition sample_host :: host where
  "sample_host =
     \<lparr>date_parse = (\<lambda>s. if s = str ''2024-01-15'' then True
                         else if s = str ''not a date'' then False else undefined),
      number_to_string = undefined,
      sql_text = (\<lambda>v. case v of JStr s \<Rightarrow> s | _ \<Rightarrow> undefined),
      sql_numeric = decimal,
      parseInt = decimal\<rparr>"

text \<open>A well-formed body, the body \<open>{}\<close>, and a body whose email is \<open>{"toString": 1}\<close>.\<close>

definition ann :: employee_body where
  "ann = \<lparr>name = JStr (str ''Ann''), email = JStr (str ''ann@example.com''),
          department = JStr (str ''Ops''), role = JStr (str ''Lead''),
          hireDate = JStr (str ''2024-01-15'')\<rparr>"

definition no_fields :: employee_body where
  "no_fields = \<lparr>name = JUndefined, email = JUndefined, department = JUndefined,
                role = JUndefined, hireDate = JUndefined\<rparr>"

definition uncoercible :: employee_body where
  "uncoercible = \<lparr>name = JStr (str ''Ann''), email = JObj [(str ''toString'', JNum 1)],
                  department = JStr (str ''Ops''), role = JStr (str ''Lead''),
                  hireDate = JStr (str ''not a date'')\<rparr>"

definition stored :: "int \<Rightarrow> string \<Rightarrow> employee_row" where
  "stored i mail = \<lparr>row_id = i, row_name = str ''N'', row_email = str mail,
                    row_department = str ''Ops'', row_role = str ''Lead'',
                    row_hireDate = str ''2024-01-15''\<rparr>"

definition three_rows :: database where
  "three_rows =
     \<lparr>employees = [stored 2 ''b@x.io'', stored 5 ''e@x.io'', stored 3 ''c@x.io''],
      sqlite_sequence = 5\<rparr>"


section \<open>Properties of the server\<close>

subsection \<open>The email pattern\<close>

lemma plain_char_stop: "plain_char 46"
  by (simp add: plain_char_def js_space_def)

lemma plain_not_at: "list_all plain_char a \<Longrightarrow> 64 \<notin> set a"
  by (auto simp: list_all_iff plain_char_def)

lemma inner_stop_split:
  assumes "46 \<in> set (butlast (tl d))"
  shows "\<exists>b c. d = b @ 46 # c \<and> b \<noteq> [] \<and> c \<noteq> []"
proof -
  from assms obtain y d' where d: "d = y # d'" by (cases d) auto
  with assms have in': "46 \<in> set (butlast d')" by simp
  then have "d' \<noteq> []" by auto
  then obtain p l where d': "d' = p @ [l]" by (metis rev_exhaust)
  with in' have "46 \<in> set p" by simp
  then obtain p1 p2 where "p = p1 @ 46 # p2" by (meson split_list)
  with d d' have "d = (y # p1) @ 46 # (p2 @ [l])" by simp
  then show ?thesis by blast
qed

lemma inner_stop_join:
  assumes "b \<noteq> []" "c \<noteq> []"
  shows "46 \<in> set (butlast (tl (b @ 46 # c)))"
proof -
  from assms obtain y b' where "b = y # b'" by (cases b) auto
  with assms show ?thesis by (simp add: butlast_append)
qed

text \<open>The computed test decides the language of the pattern.\<close>

lemma emailRegex_test_iff: "emailRegex_test s = emailRegex_matches s"
proof
  assume t: "emailRegex_test s"
  define a where "a = takeWhile (\<lambda>c. c \<noteq> 64) s"
  define r where "r = dropWhile (\<lambda>c. c \<noteq> 64) s"
  from t have a: "a \<noteq> []" "list_all plain_char a"
    by (simp_all add: emailRegex_test_def a_def Let_def)
  from t obtain x d where r: "r = x # d"
    and d: "list_all plain_char d" "46 \<in> set (butlast (tl d))"
    by (auto simp: emailRegex_test_def r_def Let_def split: list.splits)
  have "r \<noteq> []" using r by simp
  then have "\<not> hd r \<noteq> 64" unfolding r_def by (rule hd_dropWhile)
  then have "x = 64" using r by simp
  moreover have "s = a @ r" by (simp add: a_def r_def)
  ultimately have s: "s = a @ 64 # d" using r by simp
  from inner_stop_split [OF d(2)] obtain b c
    where bc: "d = b @ 46 # c" "b \<noteq> []" "c \<noteq> []"
    by blast
  with d(1) have "list_all plain_char b" "list_all plain_char c" by simp_all
  with s bc a show "emailRegex_matches s"
    unfolding emailRegex_matches_def by blast
next
  assume "emailRegex_matches s"
  then obtain a b c where s: "s = a @ 64 # b @ 46 # c"
    and ne: "a \<noteq> []" "b \<noteq> []" "c \<noteq> []"
    and pl: "list_all plain_char a" "list_all plain_char b" "list_all plain_char c"
    unfolding emailRegex_matches_def by blast
  have na: "\<forall>x\<in>set a. x \<noteq> 64" using plain_not_at [OF pl(1)] by auto
  have tw: "takeWhile (\<lambda>c. c \<noteq> 64) s = a"
    using na by (simp add: s)
  have dw: "dropWhile (\<lambda>c. c \<noteq> 64) s = 64 # b @ 46 # c"
    using na by (simp add: s)
  have "list_all plain_char (b @ 46 # c)" using pl plain_char_stop by simp
  moreover have "46 \<in> set (butlast (tl (b @ 46 # c)))" using ne(2,3) by (rule inner_stop_join)
  ultimately show "emailRegex_test s"
    using ne(1) pl(1) by (simp add: emailRegex_test_def tw dw)
qed

lemma sample_email_matches: "emailRegex_test (str ''ann@example.com'')"
  by (simp add: emailRegex_test_def str_def plain_char_def js_space_def)

subsection \<open>Validation\<close>

text \<open>
  A body that validateEmployee rejects is answered 400 with the validation message by
  POST and by PUT, whatever the table and the driver do: no statement is run.
\<close>

lemma rejected_body_answered_400:
  assumes "validateEmployee h b = Inr (Invalid msg)"
  shows "post_employee h fault db b = (\<lparr>status = 400, body = ErrorJson msg\<rparr>, db)
       \<and> put_employee h fault db ident b = (\<lparr>status = 400, body = ErrorJson msg\<rparr>, db)"
  using assms by (simp add: post_employee_def put_employee_def)

text \<open>A falsy field is rejected first, before any conversion.\<close>

lemma missing_field_rejected:
  assumes "\<not> truthy (name b) \<or> \<not> truthy (email b) \<or> \<not> truthy (department b)
           \<or> \<not> truthy (role b) \<or> \<not> truthy (hireDate b)"
  shows "validateEmployee h b = Inr (Invalid ''All fields are required'')"
  using assms by (simp add: validateEmployee_def)

text \<open>
  When the email and the hire date convert without throwing, a body with a falsy field,
  an email outside the pattern or a hire date that is no date is rejected.
\<close>

lemma coercible_body_rejected:
  assumes "ToString h (email b) = Some e" and "Date_isNaN h (hireDate b) = Some nan"
    and "\<not> truthy (name b) \<or> \<not> truthy (email b) \<or> \<not> truthy (department b)
         \<or> \<not> truthy (role b) \<or> \<not> truthy (hireDate b) \<or> \<not> emailRegex_test e \<or> nan"
  shows "\<exists>msg. validateEmployee h b = Inr (Invalid msg)"
  using assms by (auto simp: validateEmployee_def)

text \<open>Strings always convert: for string fields the three checks are the whole story.\<close>

lemma string_fields_rejected:
  assumes "email b = JStr e" and "hireDate b = JStr d"
    and "\<not> truthy (name b) \<or> e = [] \<or> \<not> truthy (department b) \<or> \<not> truthy (role b)
         \<or> d = [] \<or> \<not> emailRegex_test e \<or> \<not> date_parse h d"
  shows "\<exists>msg. post_employee h fault db b = (\<lparr>status = 400, body = ErrorJson msg\<rparr>, db)
             \<and> put_employee h fault db ident b = (\<lparr>status = 400, body = ErrorJson msg\<rparr>, db)"
proof -
  have "\<exists>msg. validateEmployee h b = Inr (Invalid msg)"
    using assms by (auto simp: validateEmployee_def)
  then show ?thesis using rejected_body_answered_400 by blast
qed

lemma uncoercible_email_throws: "validateEmployee sample_host uncoercible = Inl TypeError"
  by (simp add: validateEmployee_def uncoercible_def str_def)

text \<open>
  C8. The claim: a body with a missing or empty field, an email outside the pattern or a
  hire date that does not parse is answered 400 by POST and PUT, the table unchanged.
  At the body \<open>{"name": "Ann", "email": {"toString": 1}, "department": "Ops",
  "role": "Lead", "hireDate": "not a date"}\<close> the hire date does not parse and the email is
  no address, yet validateEmployee throws while converting the email for the pattern test:
  both routes answer 500 through Express's error handler. The table is unchanged.
\<close>

theorem uncoercible_email_answered_500:
  "Date_isNaN sample_host (hireDate uncoercible) = Some True
   \<and> post_employee sample_host None (initDatabase None) uncoercible
       = (\<lparr>status = 500, body = ErrorPage\<rparr>, initDatabase None)
   \<and> put_employee sample_host None (initDatabase None) (str ''1'') uncoercible
       = (\<lparr>status = 500, body = ErrorPage\<rparr>, initDatabase None)"
proof -
  have d: "Date_isNaN sample_host (hireDate uncoercible) = Some True"
    by (simp add: uncoercible_def sample_host_def str_def)
  show ?thesis
    using d uncoercible_email_throws by (simp add: post_employee_def put_employee_def)
qed

subsection \<open>Numbers the driver hands over\<close>

lemma bit_length_le: "m < 2 ^ k \<Longrightarrow> bit_length m \<le> k"
proof (induction m arbitrary: k rule: bit_length.induct)
  case (1 n)
  show ?case
  proof (cases "n \<le> 0")
    case True
    then show ?thesis by (simp add: bit_length.simps)
  next
    case False
    with "1.prems" have "k \<noteq> 0" by (cases k) auto
    then obtain j where k: "k = Suc j" by (cases k) auto
    with "1.prems" have "n div 2 < 2 ^ j" by auto
    with False have "bit_length (n div 2) \<le> j" by (intro "1.IH")
    with k False show ?thesis by (subst bit_length.simps) simp
  qed
qed

text \<open>An id of magnitude at most \<open>2^53\<close> reaches JavaScript as it is stored.\<close>

lemma double_of_int_exact:
  assumes "\<bar>i\<bar> < 2 ^ 53"
  shows "double_of_int i = i"
proof -
  have "bit_length \<bar>i\<bar> \<le> 53" using assms by (rule bit_length_le)
  then have "bit_length \<bar>i\<bar> - 53 = 0" by simp
  then show ?thesis unfolding double_of_int_def Let_def by (rule if_P)
qed

lemma double_of_two_to_53: "double_of_int 9007199254740992 = 9007199254740992"
  by code_simp


lemma double_of_int_exact_le:
  assumes "\<bar>i\<bar> \<le> 2 ^ 53"
  shows "double_of_int i = i"
proof (cases "\<bar>i\<bar> < 2 ^ 53")
  case True
  then show ?thesis by (rule double_of_int_exact)
next
  case False
  with assms have "i = 9007199254740992 \<or> i = - 9007199254740992" by auto
  moreover have "double_of_int (- 9007199254740992) = - 9007199254740992" by code_simp
  ultimately show ?thesis using double_of_two_to_53 by auto
qed



subsection \<open>Routes addressed by id\<close>

lemma sample_body_valid: "validateEmployee sample_host ann = Inr Valid"
  by (simp add: validateEmployee_def ann_def sample_host_def sample_email_matches)
    (simp add: str_def)

lemma no_row_seven: "\<forall>r\<in>set (employees three_rows). \<not> id_is sample_host (str ''7'') r"
  by (simp add: three_rows_def stored_def id_is_def sample_host_def decimal_def str_def)

text \<open>
  C9, as stated: for an id that matches no row, GET, PUT and DELETE on that id each
  answer 404. Two guards of the handlers come first. PUT validates the body before it
  runs the UPDATE: on the empty table, \<open>PUT /api/employees/7\<close> with body \<open>{}\<close> is
  answered 400. And every handler answers 500 when the driver reports an error: so do
  GET, DELETE and (with a valid body) PUT on \<open>/api/employees/7\<close> and the empty table
  when the file cannot be read.
\<close>

theorem unknown_id_not_always_404:
  "employees (initDatabase None) = []
   \<and> put_employee sample_host None (initDatabase None) (str ''7'') no_fields
       = (\<lparr>status = 400, body = ErrorJson ''All fields are required''\<rparr>, initDatabase None)
   \<and> get_employee sample_host (Some ''SQLITE_IOERR: disk I/O error'') (initDatabase None)
         (str ''7'')
       = (\<lparr>status = 500, body = ErrorJson ''Error fetching employee''\<rparr>, initDatabase None)
   \<and> delete_employee sample_host (Some ''SQLITE_IOERR: disk I/O error'') (initDatabase None)
         (str ''7'')
       = (\<lparr>status = 500, body = ErrorJson ''Error deleting employee''\<rparr>, initDatabase None)
   \<and> put_employee sample_host (Some ''SQLITE_IOERR: disk I/O error'') (initDatabase None)
         (str ''7'') ann
       = (\<lparr>status = 500, body = ErrorJson ''Error updating employee''\<rparr>, initDatabase None)"
proof -
  have p: "put_employee sample_host None (initDatabase None) (str ''7'') no_fields
       = (\<lparr>status = 400, body = ErrorJson ''All fields are required''\<rparr>, initDatabase None)"
    by (simp add: put_employee_def validateEmployee_def no_fields_def)
  have g: "get_employee sample_host (Some ''SQLITE_IOERR: disk I/O error'') (initDatabase None)
         (str ''7'')
       = (\<lparr>status = 500, body = ErrorJson ''Error fetching employee''\<rparr>, initDatabase None)"
    by (simp add: get_employee_def select_by_id_def)
  have d: "delete_employee sample_host (Some ''SQLITE_IOERR: disk I/O error'')
         (initDatabase None) (str ''7'')
       = (\<lparr>status = 500, body = ErrorJson ''Error deleting employee''\<rparr>, initDatabase None)"
    by (simp add: delete_employee_def delete_employee_row_def)
  have u: "put_employee sample_host (Some ''SQLITE_IOERR: disk I/O error'') (initDatabase None)
         (str ''7'') ann
       = (\<lparr>status = 500, body = ErrorJson ''Error updating employee''\<rparr>, initDatabase None)"
    by (simp add: put_employee_def sample_body_valid update_employee_def)
  have e: "employees (initDatabase None) = []" by (simp add: initDatabase_def)
  from e p g d u show ?thesis by blast
qed

text \<open>
  PUT and DELETE on an id that matches no row leave the table as it is, whatever the body
  and whatever the driver reports.
\<close>

lemma unknown_id_table_unchanged:
  assumes "\<forall>r\<in>set (employees db). \<not> id_is h ident r"
  shows "snd (put_employee h fault db ident b) = db
       \<and> snd (delete_employee h fault db ident) = db"
proof -
  have none: "filter (id_is h ident) (employees db) = []"
    using assms by (simp add: filter_empty_conv)
  have keep: "filter (\<lambda>r. \<not> id_is h ident r) (employees db) = employees db"
    using assms by (simp add: filter_id_conv)
  have noex: "\<not> list_ex (id_is h ident) (employees db)"
    using assms by (simp add: list_ex_iff)
  have same: "map (\<lambda>r. if id_is h ident r then f r else r) (employees db) = employees db" for f
    using assms by (simp add: map_idI)
  have u: "snd (update_employee h fault db b ident) = db"
    by (cases fault) (simp_all add: update_employee_def noex same)
  have "snd (put_employee h fault db ident b) = db"
  proof (cases "validateEmployee h b = Inr Valid")
    case True
    then have "snd (put_employee h fault db ident b) = snd (update_employee h fault db b ident)"
      by (simp add: put_employee_def split: prod.splits sum.splits)
    with u show ?thesis by simp
  next
    case False
    then show ?thesis
      by (simp add: put_employee_def split: sum.splits validation.splits)
  qed
  moreover have "snd (delete_employee h fault db ident) = db"
    by (cases fault) (simp_all add: delete_employee_def delete_employee_row_def none keep)
  ultimately show ?thesis by blast
qed

text \<open>
  C9, amended: for an id that matches no row, PUT and DELETE leave the table as it is, for
  every body and whatever the driver reports; and when the driver reports no error, GET
  and DELETE answer 404 with \<open>{error: 'Employee not found'}\<close>, and so does PUT for a body
  that validateEmployee accepts.
\<close>

theorem unknown_id_answered_404:
  assumes "\<forall>r\<in>set (employees db). \<not> id_is h ident r"
  shows "snd (put_employee h fault db ident b) = db
       \<and> snd (delete_employee h fault db ident) = db
       \<and> get_employee h None db ident
           = (\<lparr>status = 404, body = ErrorJson ''Employee not found''\<rparr>, db)
       \<and> delete_employee h None db ident
           = (\<lparr>status = 404, body = ErrorJson ''Employee not found''\<rparr>, db)
       \<and> (validateEmployee h b = Inr Valid \<longrightarrow>
            put_employee h None db ident b
              = (\<lparr>status = 404, body = ErrorJson ''Employee not found''\<rparr>, db))"
proof -
  have none: "filter (id_is h ident) (employees db) = []"
    using assms by (simp add: filter_empty_conv)
  have keep: "filter (\<lambda>r. \<not> id_is h ident r) (employees db) = employees db"
    using assms by (simp add: filter_id_conv)
  have noex: "\<not> list_ex (id_is h ident) (employees db)"
    using assms by (simp add: list_ex_iff)
  have same: "map (\<lambda>r. if id_is h ident r then f r else r) (employees db) = employees db" for f
    using assms by (simp add: map_idI)
  have "find (id_is h ident) (employees db) = None"
    using assms by (simp add: find_None_iff)
  then have g: "get_employee h None db ident
                  = (\<lparr>status = 404, body = ErrorJson ''Employee not found''\<rparr>, db)"
    by (simp add: get_employee_def select_by_id_def)
  have d: "delete_employee h None db ident
             = (\<lparr>status = 404, body = ErrorJson ''Employee not found''\<rparr>, db)"
    by (simp add: delete_employee_def delete_employee_row_def none keep)
  have u: "update_employee h None db b ident = (Inr 0, db)"
    by (simp add: update_employee_def noex none same)
  have p: "validateEmployee h b = Inr Valid \<longrightarrow>
             put_employee h None db ident b
               = (\<lparr>status = 404, body = ErrorJson ''Employee not found''\<rparr>, db)"
    by (simp add: put_employee_def u)
  from unknown_id_table_unchanged [OF assms, of fault b] g d p show ?thesis by blast
qed

theorem unknown_id_answered_404_witness:
  "snd (put_employee sample_host (Some ''SQLITE_IOERR: disk I/O error'') three_rows (str ''7'')
          no_fields) = three_rows
   \<and> snd (delete_employee sample_host (Some ''SQLITE_IOERR: disk I/O error'') three_rows
          (str ''7'')) = three_rows
   \<and> get_employee sample_host None three_rows (str ''7'')
     = (\<lparr>status = 404, body = ErrorJson ''Employee not found''\<rparr>, three_rows)
   \<and> delete_employee sample_host None three_rows (str ''7'')
     = (\<lparr>status = 404, body = ErrorJson ''Employee not found''\<rparr>, three_rows)
   \<and> put_employee sample_host None three_rows (str ''7'') ann
     = (\<lparr>status = 404, body = ErrorJson ''Employee not found''\<rparr>, three_rows)"
  using unknown_id_answered_404 [OF no_row_seven, of "Some ''SQLITE_IOERR: disk I/O error''" no_fields]
    unknown_id_answered_404 [OF no_row_seven, of None ann] sample_body_valid
  by simp

subsection \<open>Listing the table\<close>



lemma order_by_id_desc_set: "set (order_by_id_desc rows) = set rows"
  by (simp add: order_by_id_desc_def)

text \<open>The GET routes never write, whatever the driver reports.\<close>

lemma get_routes_read_only:
  "snd (get_employees fault db) = db \<and> snd (get_employee h fault db ident) = db
   \<and> snd (get_employees_by_department fault db dept) = db"
  by (simp add: get_employees_def get_employee_def get_employees_by_department_def
           split: sum.splits option.splits)







subsection \<open>The handlers keep the key constraints\<close>

lemma fold_max_ge: "(a::int) \<le> fold max xs a \<and> (\<forall>x\<in>set xs. x \<le> fold max xs a)"
proof (induction xs arbitrary: a)
  case Nil
  show ?case by simp
next
  case (Cons y ys)
  have "max y a \<le> fold max ys (max y a)" using Cons.IH by blast
  moreover have "\<forall>x\<in>set ys. x \<le> fold max ys (max y a)" using Cons.IH by blast
  ultimately show ?case by auto
qed

lemma insert_employee_keeps_keys:
  assumes "primary_key_ok db" "emails_unique db"
  shows "primary_key_ok (snd (insert_employee h fault db b))
       \<and> emails_unique (snd (insert_employee h fault db b))"
proof -
  let ?top = "fold max (map row_id (employees db)) (sqlite_sequence db)"
  have "\<forall>r\<in>set (employees db). row_id r \<le> ?top"
    using fold_max_ge [of "sqlite_sequence db" "map row_id (employees db)"] by simp
  then have fresh: "?top + 1 \<notin> row_id ` set (employees db)" by fastforce
  show ?thesis
    using assms fresh
    by (auto simp: insert_employee_def primary_key_ok_def emails_unique_def Let_def list_ex_iff
             split: option.splits)
qed

text \<open>A row created later has the larger id.\<close>

lemma insert_employee_id_fresh:
  assumes "insert_employee h fault db b = (Inr i, db')"
  shows "\<forall>r\<in>set (employees db). row_id r < i"
proof -
  let ?top = "fold max (map row_id (employees db)) (sqlite_sequence db)"
  have le: "\<forall>r\<in>set (employees db). row_id r \<le> ?top"
    using fold_max_ge [of "sqlite_sequence db" "map row_id (employees db)"] by simp
  from assms have "i = ?top + 1"
    by (auto simp: insert_employee_def Let_def split: option.splits if_splits)
  with le show ?thesis by fastforce
qed

text \<open>And it is the first row of the listing.\<close>

lemma inserted_row_listed_first:
  assumes "insert_employee h fault db b = (Inr i, db')"
  shows "\<exists>r rest. order_by_id_desc (employees db') = r # rest \<and> row_id r = i"
proof -
  have older: "\<forall>r\<in>set (employees db). row_id r < i"
    using assms by (rule insert_employee_id_fresh)
  from assms obtain new where db': "employees db' = employees db @ [new]"
    and new: "row_id new = i"
    by (auto simp: insert_employee_def Let_def split: option.splits if_splits)
  have le: "\<forall>r\<in>set (employees db'). row_id r \<le> i"
    using older new db' by auto
  let ?l = "order_by_id_desc (employees db')"
  have "new \<in> set ?l" by (simp add: order_by_id_desc_set db')
  then obtain r rest where l: "?l = r # rest" by (cases ?l) auto
  have "sorted (map row_id (sort_key row_id (employees db')))" by (rule sorted_sort_key)
  then have "sorted_wrt (\<ge>) (map row_id ?l)"
    by (simp add: order_by_id_desc_def rev_map [symmetric] sorted_wrt_rev del: rev_map)
  with l have ge: "\<forall>y\<in>set rest. row_id y \<le> row_id r" by simp
  have "i \<le> row_id r"
  proof (cases "new = r")
    case True
    with new show ?thesis by simp
  next
    case False
    with \<open>new \<in> set ?l\<close> l have "new \<in> set rest" by simp
    with ge new show ?thesis by auto
  qed
  moreover have "r \<in> set (employees db')"
    using l order_by_id_desc_set [of "employees db'"] by (metis list.set_intros(1))
  ultimately have "row_id r = i" using le by fastforce
  with l show ?thesis by blast
qed

lemma one_hit:
  assumes "distinct (map row_id rows)" "r \<in> set rows" "r' \<in> set rows"
    "id_is h ident r" "id_is h ident r'"
  shows "r = r'"
proof -
  from assms(4,5) have "row_id r = row_id r'" by (simp add: id_is_def)
  with assms(1-3) show ?thesis by (meson distinct_map inj_onD)
qed

lemma update_employee_keeps_keys:
  assumes "primary_key_ok db" "emails_unique db"
  shows "primary_key_ok (snd (update_employee h fault db b ident))
       \<and> emails_unique (snd (update_employee h fault db b ident))"
proof (cases "fault = None \<and> \<not> (list_ex (id_is h ident) (employees db) \<and>
             list_ex (\<lambda>r. \<not> id_is h ident r \<and> row_email r = sql_text h (email b)) (employees db))")
  case False
  then show ?thesis using assms by (auto simp: update_employee_def split: option.splits)
next
  case True
  let ?f = "\<lambda>r. if id_is h ident r
                 then r\<lparr>row_name := sql_text h (name b), row_email := sql_text h (email b),
                        row_department := sql_text h (department b),
                        row_role := sql_text h (role b),
                        row_hireDate := sql_text h (hireDate b)\<rparr>
                 else r"
  have snd_eq: "employees (snd (update_employee h fault db b ident)) = map ?f (employees db)"
    using True by (auto simp: update_employee_def)
  have ids: "map row_id (map ?f (employees db)) = map row_id (employees db)"
    by (induction "employees db") auto
  have d: "distinct (map row_id (employees db))" using assms(1) by (simp add: primary_key_ok_def)
  have inj: "inj_on row_email (set (employees db))"
    using assms(2) by (simp add: emails_unique_def distinct_map)
  have "inj_on (row_email \<circ> ?f) (set (employees db))"
  proof (rule inj_onI)
    fix x y assume x: "x \<in> set (employees db)" and y: "y \<in> set (employees db)"
      and e: "(row_email \<circ> ?f) x = (row_email \<circ> ?f) y"
    show "x = y"
    proof (cases "id_is h ident x")
      case hx: True
      show ?thesis
      proof (cases "id_is h ident y")
        case True
        with hx x y d show ?thesis by (meson one_hit)
      next
        case hy: False
        then have "row_email y = sql_text h (email b)" using e hx by simp
        with hx hy x y True show ?thesis by (auto simp: list_ex_iff)
      qed
    next
      case nx: False
      show ?thesis
      proof (cases "id_is h ident y")
        case hy: True
        then have "row_email x = sql_text h (email b)" using e nx by simp
        with nx hy x y True show ?thesis by (auto simp: list_ex_iff)
      next
        case False
        with nx e have "row_email x = row_email y" by simp
        with inj x y show ?thesis by (meson inj_onD)
      qed
    qed
  qed
  moreover have "distinct (employees db)"
    using d by (rule distinct_map [THEN iffD1, THEN conjunct1])
  ultimately have "distinct (map (row_email \<circ> ?f) (employees db))"
    by (simp add: distinct_map)
  then have "distinct (map row_email (map ?f (employees db)))" by (simp add: comp_def)
  moreover have "distinct (map row_id (map ?f (employees db)))" unfolding ids by (rule d)
  ultimately show ?thesis
    unfolding primary_key_ok_def emails_unique_def snd_eq by (rule conjI [rotated])
qed

lemma delete_employee_row_keeps_keys:
  assumes "primary_key_ok db" "emails_unique db"
  shows "primary_key_ok (snd (delete_employee_row h fault db ident))
       \<and> emails_unique (snd (delete_employee_row h fault db ident))"
  using assms
  by (auto simp: delete_employee_row_def primary_key_ok_def emails_unique_def
        distinct_map_filter split: option.splits)

text \<open>
  Every route keeps both constraints, so they hold of every table the server reaches from
  the empty one.
\<close>

lemma post_employee_keeps_keys:
  assumes "primary_key_ok db" "emails_unique db"
  shows "primary_key_ok (snd (post_employee h fault db b))
       \<and> emails_unique (snd (post_employee h fault db b))"
proof (cases "validateEmployee h b = Inr Valid")
  case True
  have "snd (post_employee h fault db b) = snd (insert_employee h fault db b)"
    using True by (simp add: post_employee_def split: prod.splits sum.splits)
  then show ?thesis using insert_employee_keeps_keys [OF assms] by simp
next
  case False
  then have "snd (post_employee h fault db b) = db"
    by (simp add: post_employee_def split: sum.splits validation.splits)
  then show ?thesis using assms by simp
qed

lemma put_employee_keeps_keys:
  assumes "primary_key_ok db" "emails_unique db"
  shows "primary_key_ok (snd (put_employee h fault db ident b))
       \<and> emails_unique (snd (put_employee h fault db ident b))"
proof (cases "validateEmployee h b = Inr Valid")
  case True
  have "snd (put_employee h fault db ident b) = snd (update_employee h fault db b ident)"
    using True by (simp add: put_employee_def split: prod.splits sum.splits)
  then show ?thesis using update_employee_keeps_keys [OF assms] by simp
next
  case False
  then have "snd (put_employee h fault db ident b) = db"
    by (simp add: put_employee_def split: sum.splits validation.splits)
  then show ?thesis using assms by simp
qed

lemma delete_employee_keeps_keys:
  assumes "primary_key_ok db" "emails_unique db"
  shows "primary_key_ok (snd (delete_employee h fault db ident))
       \<and> emails_unique (snd (delete_employee h fault db ident))"
proof -
  have "snd (delete_employee h fault db ident) = snd (delete_employee_row h fault db ident)"
    by (simp add: delete_employee_def split: prod.splits sum.splits)
  then show ?thesis using delete_employee_row_keeps_keys [OF assms] by simp
qed

lemma new_table_keyed:
  "primary_key_ok (initDatabase None) \<and> emails_unique (initDatabase None)"
  by (simp add: primary_key_ok_def emails_unique_def initDatabase_def)

lemma reachable_keyed:
  assumes "reachable h db"
  shows "primary_key_ok db \<and> emails_unique db"
  using assms
proof (induction rule: reachable.induct)
  case fresh
  show ?case by (rule new_table_keyed)
next
  case (post db fault b)
  then show ?case using post_employee_keeps_keys by blast
next
  case (put db fault ident b)
  then show ?case using put_employee_keeps_keys by blast
next
  case (delete db fault ident)
  then show ?case using delete_employee_keeps_keys by blast
qed

end
